theory Spec2Isabelle
  imports Complex_Main "HOL-Library.Log_Nat"
begin

section \<open>Numbers and strings of the engine\<close>

text \<open>
  A JavaScript \<^verbatim>\<open>number\<close> is an IEEE-754 double. The finite doubles other than
  the negative zero are kept by their value, a rational: \<open>Fin q\<close> is a number only for
  a \<open>q\<close> that a double can hold, and \<open>Fin 0\<close> is the positive zero. NaN, the two
  infinities and the negative zero are values of their own.
\<close>

datatype number = NaN | PosInf | NegInf | NegZero | Fin rat

text \<open>
  Rounding a rational to the nearest double, ties to the even significand. A double is
  \<open>m * 2 ^ e\<close> with \<open>m < 2 ^ 53\<close> and \<open>- 1074 \<le> e \<le> 971\<close>; \<open>ilog2 q\<close> is the
  exponent of the leading bit of a positive \<open>q\<close>. What rounds to \<open>2 ^ 1024\<close> or more
  is an infinity, and what rounds to nothing is a zero with the sign of \<open>q\<close>.
\<close>

definition ilog2 :: "rat \<Rightarrow> int" where
  "ilog2 q = (if 1 \<le> q then bitlen \<lfloor>q\<rfloor> - 1 else - bitlen (\<lceil>1 / q\<rceil> - 1))"

definition scale2 :: "rat \<Rightarrow> int \<Rightarrow> rat" where
  "scale2 m e = (if 0 \<le> e then m * 2 ^ nat e else m / 2 ^ nat (- e))"

definition roundHalfEven :: "rat \<Rightarrow> int" where
  "roundHalfEven q =
     (let f = \<lfloor>q\<rfloor>; r = q - of_int f
      in if r < 1 / 2 then f
         else if 1 / 2 < r then f + 1
         else if even f then f else f + 1)"

definition roundDouble :: "rat \<Rightarrow> number" where
  "roundDouble q =
     (if q = 0 then Fin 0
      else
        (let a = \<bar>q\<bar>;
             e = max (ilog2 a - 52) (- 1074);
             m = roundHalfEven (scale2 a (- e));
             v = scale2 (of_int m) e
         in if 2 ^ 1024 \<le> v then (if q < 0 then NegInf else PosInf)
            else if m = 0 then (if q < 0 then NegZero else Fin 0)
            else Fin (if q < 0 then - v else v)))"

text \<open>
  Multiplication of numbers (\<^verbatim>\<open>*\<close>): NaN when an operand is NaN or when zero meets
  an infinity, otherwise the sign is the product of the signs, and the value is the
  exact product rounded.
\<close>

fun sign_neg :: "number \<Rightarrow> bool" where
  "sign_neg NegInf = True"
| "sign_neg NegZero = True"
| "sign_neg (Fin q) = (q < 0)"
| "sign_neg _ = False"

fun is_zero :: "number \<Rightarrow> bool" where
  "is_zero NegZero = True"
| "is_zero (Fin q) = (q = 0)"
| "is_zero _ = False"

fun is_infinite :: "number \<Rightarrow> bool" where
  "is_infinite PosInf = True"
| "is_infinite NegInf = True"
| "is_infinite _ = False"

fun value_of :: "number \<Rightarrow> rat" where
  "value_of (Fin q) = q"
| "value_of _ = 0"

definition num_times :: "number \<Rightarrow> number \<Rightarrow> number" where
  "num_times a b =
     (if a = NaN \<or> b = NaN then NaN
      else if is_infinite a \<or> is_infinite b then
        (if is_zero a \<or> is_zero b then NaN
         else if sign_neg a = sign_neg b then PosInf else NegInf)
      else if is_zero a \<or> is_zero b then
        (if sign_neg a = sign_neg b then Fin 0 else NegZero)
      else roundDouble (value_of a * value_of b))"


text \<open>
  A JavaScript string is a sequence of UTF-16 code units, each below 65536; \<open>utf16\<close>
  gives the code units of an ASCII literal.
\<close>

type_synonym jsString = "nat list"

definition utf16 :: "string \<Rightarrow> jsString" where
  "utf16 s = map of_char s"

section \<open>Data model of MapView.tsx\<close>

text \<open>The interfaces declared at the top of the file (lines 16 to 36).\<close>

record NominatimSearchResponse =
  lat :: jsString
  lon :: jsString

record Geometry =
  coordinates :: "(number \<times> number) list"

record OSRMRoute =
  geometry :: Geometry

record OSRMRouteResponse =
  osrm_routes :: "OSRMRoute list"

record Route =
  coords :: "(number \<times> number) list"
  endCoords :: "number \<times> number"

text \<open>
  The \<^verbatim>\<open>useState\<close> variables of the component (lines 54 to 61). An index is an
  \<open>int\<close>: \<^verbatim>\<open>handleRouteClick\<close> accepts any number, also a negative one. The
  initial coordinates are the numbers of the literals 20.5937 and 78.9629.
\<close>

record MapViewState =
  userCoords :: "number \<times> number"
  userAddress :: jsString
  destination :: jsString
  routes :: "Route list"
  selectedRoute :: "int option"
  estimatedTime :: "number option"
  estimatedCost :: "number option"
  fullscreen :: bool

definition initialState :: MapViewState where
  "initialState =
     \<lparr> userCoords = (roundDouble (205937 / 10000), roundDouble (789629 / 10000)),
       userAddress = [],
       destination = [],
       routes = [],
       selectedRoute = None,
       estimatedTime = None,
       estimatedCost = None,
       fullscreen = False \<rparr>"

text \<open>
  Errors that the code throws or receives: a rejected HTTP request, the two
  \<^verbatim>\<open>new Error(...)\<close> of the file, and the TypeError of reading a property of
  \<^verbatim>\<open>undefined\<close>.
\<close>

datatype error =
    NetworkError string
  | InvalidAddress
  | StartingLocationNotAvailable
  | TypeError

text \<open>
  Console output. Each entry keeps the label (the first argument of the call); an
  error entry also keeps the error that was passed.
\<close>

datatype console = ConsoleLog string | ConsoleError string error

text \<open>Reading \<^verbatim>\<open>xs[i]\<close>: \<^verbatim>\<open>undefined\<close> outside the array.\<close>

definition at_index :: "'a list \<Rightarrow> int \<Rightarrow> 'a option" where
  "at_index xs i = (if 0 \<le> i \<and> i < int (length xs) then Some (xs ! nat i) else None)"

section \<open>Selecting and confirming a route\<close>

text \<open>Lines 152 to 155.\<close>

definition handleRouteClick :: "int \<Rightarrow> MapViewState \<Rightarrow> MapViewState \<times> console list" where
  "handleRouteClick index s =
     (s\<lparr>selectedRoute := Some index\<rparr>, [ConsoleLog ''Route clicked:''])"

text \<open>
  Lines 157 to 168. With a selection that is not an index of \<^verbatim>\<open>routes\<close>,
  \<^verbatim>\<open>routes[selectedRoute]\<close> is undefined and reading \<^verbatim>\<open>.coords\<close> throws a
  TypeError before any setter runs. The length of an array is below \<open>2 ^ 32\<close> and so
  a number as it is; \<^verbatim>\<open>0.1\<close> is the double nearest to one tenth, and each of the
  three products is rounded.
\<close>

definition handleChooseRoute :: "MapViewState \<Rightarrow> (error + MapViewState) \<times> console list" where
  "handleChooseRoute s =
     (case selectedRoute s of
        None \<Rightarrow> (Inr s, [])
      | Some i \<Rightarrow>
          (case at_index (routes s) i of
             None \<Rightarrow> (Inl TypeError, [])
           | Some r \<Rightarrow>
               (let distance = num_times (Fin (of_nat (length (coords r)))) (roundDouble (1 / 10));
                    time = num_times distance (Fin 2);
                    cost = num_times distance (Fin 10)
                in (Inr (s\<lparr>estimatedTime := Some time, estimatedCost := Some cost\<rparr>),
                    [ConsoleLog ''Calculated time:'']))))"

section \<open>Resolving an address\<close>

text \<open>
  \<^verbatim>\<open>parseFloat\<close>: the leading white space and line terminators are skipped, then
  the longest prefix that is a decimal literal (a sign, then \<^verbatim>\<open>Infinity\<close> or digits
  with an optional fraction and an optional exponent) is read, and its value is rounded
  to a double; without such a prefix the result is NaN. A literal of value zero after
  a minus sign is the negative zero.
\<close>

definition isWhiteSpace :: "nat \<Rightarrow> bool" where
  "isWhiteSpace c =
     (c \<in> {9, 10, 11, 12, 13, 32, 160, 5760, 8232, 8233, 8239, 8287, 12288, 65279}
      \<or> (8192 \<le> c \<and> c \<le> 8202))"

definition isDigit :: "nat \<Rightarrow> bool" where
  "isDigit c = (of_char CHR ''0'' \<le> c \<and> c \<le> of_char CHR ''9'')"

definition digitsValue :: "jsString \<Rightarrow> nat" where
  "digitsValue ds = foldl (\<lambda>acc c. 10 * acc + (c - of_char CHR ''0'')) 0 ds"

fun stripSign :: "jsString \<Rightarrow> bool \<times> jsString" where
  "stripSign [] = (False, [])"
| "stripSign (c # cs) =
     (if c = of_char CHR ''-'' then (True, cs)
      else if c = of_char CHR ''+'' then (False, cs)
      else (False, c # cs))"

definition exponentPart :: "jsString \<Rightarrow> int" where
  "exponentPart r =
     (case r of
        [] \<Rightarrow> 0
      | c # cs \<Rightarrow>
          if c = of_char CHR ''e'' \<or> c = of_char CHR ''E'' then
            (case stripSign cs of
               (neg, r') \<Rightarrow>
                 (let ds = takeWhile isDigit r'
                  in if ds = [] then 0
                     else if neg then - int (digitsValue ds) else int (digitsValue ds)))
          else 0)"

definition scale10 :: "rat \<Rightarrow> int \<Rightarrow> rat" where
  "scale10 m e = (if 0 \<le> e then m * 10 ^ nat e else m / 10 ^ nat (- e))"

definition fractionPart :: "jsString \<Rightarrow> jsString \<times> jsString" where
  "fractionPart r =
     (case r of
        [] \<Rightarrow> ([], [])
      | c # cs \<Rightarrow>
          if c = of_char CHR ''.'' then (takeWhile isDigit cs, dropWhile isDigit cs)
          else ([], r))"

definition literalNumber :: "bool \<Rightarrow> rat \<Rightarrow> number" where
  "literalNumber neg v =
     (if v = 0 then (if neg then NegZero else Fin 0)
      else roundDouble (if neg then - v else v))"

definition parseFloat :: "jsString \<Rightarrow> number" where
  "parseFloat str =
     (case stripSign (dropWhile isWhiteSpace str) of
        (neg, s) \<Rightarrow>
          if take 8 s = utf16 ''Infinity'' then (if neg then NegInf else PosInf)
          else
            (let ip = takeWhile isDigit s
             in case fractionPart (dropWhile isDigit s) of
                  (fp, r) \<Rightarrow>
                    if ip = [] \<and> fp = [] then NaN
                    else
                      (let m = of_nat (digitsValue ip)
                                 + of_nat (digitsValue fp) / 10 ^ length fp
                       in literalNumber neg (scale10 m (exponentPart r)))))"

text \<open>
  Lines 112 to 124. The argument \<open>search\<close> is the geocoding service as this request
  sees it: from the query to a rejected request or to the list of candidates in
  \<^verbatim>\<open>res.data\<close>. The \<^verbatim>\<open>catch\<close> prints the error and throws it again.
\<close>

definition getCoordinates ::
  "(jsString \<Rightarrow> error + NominatimSearchResponse list) \<Rightarrow> jsString
     \<Rightarrow> (error + number \<times> number) \<times> console list" where
  "getCoordinates search address =
     (case search address of
        Inl e \<Rightarrow> (Inl e, [ConsoleError ''Failed to get coordinates:'' e])
      | Inr data \<Rightarrow>
          (case data of
             [] \<Rightarrow> (Inl InvalidAddress, [ConsoleError ''Failed to get coordinates:'' InvalidAddress])
           | d # _ \<Rightarrow>
               (Inr (parseFloat (lat d), parseFloat (lon d)),
                [ConsoleLog ''Coordinates fetched for address:''])))"

text \<open>The range of a latitude and of a longitude, in degrees.\<close>

fun latitudeInRange :: "number \<Rightarrow> bool" where
  "latitudeInRange (Fin q) = (- 90 \<le> q \<and> q \<le> 90)"
| "latitudeInRange NegZero = True"
| "latitudeInRange _ = False"

fun longitudeInRange :: "number \<Rightarrow> bool" where
  "longitudeInRange (Fin q) = (- 180 \<le> q \<and> q \<le> 180)"
| "longitudeInRange NegZero = True"
| "longitudeInRange _ = False"

section \<open>Fetching the routes\<close>

text \<open>
  The services a fetch talks to: the geocoder as the request for the pickup address
  sees it, the geocoder as the request for the destination sees it (the two requests are
  sent one after the other and need not get the same answer), and the router, from the
  start, the end and the value of \<^verbatim>\<open>alternatives\<close>.
\<close>

record Services =
  searchStart :: "jsString \<Rightarrow> error + NominatimSearchResponse list"
  searchEnd :: "jsString \<Rightarrow> error + NominatimSearchResponse list"
  route :: "number \<times> number \<Rightarrow> number \<times> number \<Rightarrow> nat \<Rightarrow> error + OSRMRouteResponse"

text \<open>
  The callback of lines 135 to 141, for one value of \<open>i\<close>. A response with no route
  makes \<^verbatim>\<open>res.data.routes[0]\<close> undefined, and reading \<^verbatim>\<open>.geometry\<close> throws.
\<close>

definition routeRequest ::
  "Services \<Rightarrow> number \<times> number \<Rightarrow> number \<times> number \<Rightarrow> nat \<Rightarrow> error + Route" where
  "routeRequest net start end i =
     (case route net start end i of
        Inl e \<Rightarrow> Inl e
      | Inr res \<Rightarrow>
          (case osrm_routes res of
             [] \<Rightarrow> Inl TypeError
           | r # _ \<Rightarrow>
               Inr \<lparr> coords = map (\<lambda>(lng, lat). (lat, lng)) (coordinates (geometry r)),
                     endCoords = end \<rparr>))"

text \<open>
  \<^verbatim>\<open>Promise.all\<close>: the values in the order of the promises, or a rejection as soon
  as one promise rejects. When several reject, the engine reports the one that rejects
  first in time; here it is the one with the least index.
\<close>

fun promiseAll :: "(error + 'a) list \<Rightarrow> error + 'a list" where
  "promiseAll [] = Inr []"
| "promiseAll (p # ps) =
     (case p of
        Inl e \<Rightarrow> Inl e
      | Inr v \<Rightarrow> (case promiseAll ps of Inl e \<Rightarrow> Inl e | Inr vs \<Rightarrow> Inr (v # vs)))"

text \<open>An array is an object, and every object is truthy (the test of line 131).\<close>

definition truthyTuple :: "number \<times> number \<Rightarrow> bool" where
  "truthyTuple c = True"

text \<open>Line 128: an empty \<^verbatim>\<open>userAddress\<close> is falsy.\<close>

definition resolveStart :: "Services \<Rightarrow> MapViewState \<Rightarrow> (error + number \<times> number) \<times> console list" where
  "resolveStart net s =
     (if userAddress s \<noteq> [] then getCoordinates (searchStart net) (userAddress s)
      else (Inr (userCoords s), []))"

text \<open>
  Lines 128 to 143, the part of the \<^verbatim>\<open>try\<close> block that reads the state and the
  network and writes nothing: the value of \<^verbatim>\<open>fetchedRoutes\<close> or the error thrown.
\<close>

definition fetchRoutes :: "Services \<Rightarrow> MapViewState \<Rightarrow> (error + Route list) \<times> console list" where
  "fetchRoutes net s =
     (case resolveStart net s of
        (Inl e, out1) \<Rightarrow> (Inl e, out1)
      | (Inr start, out1) \<Rightarrow>
          (case getCoordinates (searchEnd net) (destination s) of
             (Inl e, out2) \<Rightarrow> (Inl e, out1 @ out2)
           | (Inr end, out2) \<Rightarrow>
               if \<not> truthyTuple start then (Inl StartingLocationNotAvailable, out1 @ out2)
               else (promiseAll (map (routeRequest net start end) [0, 1, 2]), out1 @ out2)))"

text \<open>Lines 126 to 150: the two setters after a fetch, or the \<^verbatim>\<open>catch\<close>.\<close>

definition getRoutes :: "Services \<Rightarrow> MapViewState \<Rightarrow> MapViewState \<times> console list" where
  "getRoutes net s =
     (case fetchRoutes net s of
        (Inr fetchedRoutes, out) \<Rightarrow>
          (s\<lparr>routes := fetchedRoutes, selectedRoute := None\<rparr>,
           out @ [ConsoleLog ''Routes fetched:''])
      | (Inl err, out) \<Rightarrow> (s, out @ [ConsoleError ''Failed to fetch routes:'' err]))"

section \<open>What is rendered\<close>

text \<open>Lines 246 to 260: the indices whose polyline carries a click handler.\<close>

definition clickablePolylines :: "MapViewState \<Rightarrow> int list" where
  "clickablePolylines s =
     (if selectedRoute s = None then map int [0 ..< length (routes s)] else [])"

text \<open>Lines 202 and 213: the Choose button and its \<^verbatim>\<open>disabled\<close> attribute.\<close>

definition chooseButtonRendered :: "MapViewState \<Rightarrow> bool" where
  "chooseButtonRendered s = (length (routes s) > 0 \<and> selectedRoute s = None)"

definition chooseButtonDisabled :: "MapViewState \<Rightarrow> bool" where
  "chooseButtonDisabled s = (selectedRoute s = None)"


text \<open>Line 242: the red marker.\<close>

definition endMarker :: "MapViewState \<Rightarrow> (number \<times> number) option" where
  "endMarker s = (if length (routes s) > 0 then Some (endCoords (routes s ! 0)) else None)"

section \<open>The states of the component\<close>

text \<open>
  The states the component goes through, from the initial one, by the events it
  handles: the geolocation callback, the two text inputs and the reverse geocoding, the
  fullscreen button, a click on a polyline that carries a handler, a click on the Choose
  button when it is there and enabled, and the end of a fetch. A fetch reads the state of
  the render in which Search Routes was clicked (\<open>c\<close>) and writes, after the network
  has answered, into the state the component has by then (\<open>s\<close>). The state between the
  two setters of lines 145 and 146 counts as a state too, for a React that does not
  batch them.
\<close>

inductive reachable :: "MapViewState \<Rightarrow> bool" where
  mounted: "reachable initialState"
| located: "reachable s \<Longrightarrow> reachable (s\<lparr>userCoords := c\<rparr>)"
| addressChanged: "reachable s \<Longrightarrow> reachable (s\<lparr>userAddress := a\<rparr>)"
| destinationChanged: "reachable s \<Longrightarrow> reachable (s\<lparr>destination := d\<rparr>)"
| fullscreenToggled: "reachable s \<Longrightarrow> reachable (s\<lparr>fullscreen := \<not> fullscreen s\<rparr>)"
| routeClicked:
    "reachable s \<Longrightarrow> i \<in> set (clickablePolylines s) \<Longrightarrow> reachable (fst (handleRouteClick i s))"
| chooseClicked:
    "reachable s \<Longrightarrow> chooseButtonRendered s \<Longrightarrow> \<not> chooseButtonDisabled s
       \<Longrightarrow> fst (handleChooseRoute s) = Inr s' \<Longrightarrow> reachable s'"
| routesSet:
    "reachable c \<Longrightarrow> reachable s \<Longrightarrow> fst (fetchRoutes net c) = Inr fetchedRoutes
       \<Longrightarrow> reachable (s\<lparr>routes := fetchedRoutes\<rparr>)"
| routesSetAndReset:
    "reachable c \<Longrightarrow> reachable s \<Longrightarrow> fst (fetchRoutes net c) = Inr fetchedRoutes
       \<Longrightarrow> reachable (s\<lparr>routes := fetchedRoutes, selectedRoute := None\<rparr>)"

section \<open>Example inputs\<close>

text \<open>
  A geocoder that knows one place, a router whose answer to the request with
  \<^verbatim>\<open>alternatives=i\<close> has \<open>i + 2\<close> points (as longitude and latitude), and the
  states of one session: the destination typed, the routes fetched, route 1 clicked.
  \<open>indiaGateCoords\<close> are the doubles 28.6129 and 77.2295.
\<close>

definition indiaGate :: NominatimSearchResponse where
  "indiaGate = \<lparr> lat = utf16 ''28.6129'', lon = utf16 ''77.2295'' \<rparr>"

definition indiaGateCoords :: "number \<times> number" where
  "indiaGateCoords =
     (Fin (8053815361124329 / 281474976710656), Fin (2717271464234451 / 35184372088832))"

definition demoPoints :: "(number \<times> number) list" where
  "demoPoints = [(Fin 78, Fin 21), (Fin 78, Fin 24), (Fin 77, Fin 27), (Fin 77, Fin 28)]"

definition demoRouter ::
  "number \<times> number \<Rightarrow> number \<times> number \<Rightarrow> nat \<Rightarrow> error + OSRMRouteResponse" where
  "demoRouter start end i =
     Inr \<lparr> osrm_routes = [\<lparr> geometry = \<lparr> coordinates = take (i + 2) demoPoints \<rparr> \<rparr>] \<rparr>"

definition demoServices :: Services where
  "demoServices =
     \<lparr> searchStart = (\<lambda>q. Inr [indiaGate]),
       searchEnd = (\<lambda>q. Inr [indiaGate]),
       route = demoRouter \<rparr>"

definition demoRoutes :: "Route list" where
  "demoRoutes =
     [\<lparr> coords = [(Fin 21, Fin 78), (Fin 24, Fin 78)], endCoords = indiaGateCoords \<rparr>,
      \<lparr> coords = [(Fin 21, Fin 78), (Fin 24, Fin 78), (Fin 27, Fin 77)],
        endCoords = indiaGateCoords \<rparr>,
      \<lparr> coords = [(Fin 21, Fin 78), (Fin 24, Fin 78), (Fin 27, Fin 77), (Fin 28, Fin 77)],
        endCoords = indiaGateCoords \<rparr>]"

definition demoState :: MapViewState where
  "demoState = initialState\<lparr>destination := utf16 ''India Gate, Delhi''\<rparr>"

definition demoFetched :: MapViewState where
  "demoFetched = fst (getRoutes demoServices demoState)"

definition demoSelected :: MapViewState where
  "demoSelected = fst (handleRouteClick 1 demoFetched)"

text \<open>A router whose third request is rejected, and a geocoder with a stray answer.\<close>

definition flakyRouter ::
  "number \<times> number \<Rightarrow> number \<times> number \<Rightarrow> nat \<Rightarrow> error + OSRMRouteResponse" where
  "flakyRouter start end i =
     (if i = 2 then Inl (NetworkError ''Network Error'') else demoRouter start end i)"

definition flakyServices :: Services where
  "flakyServices = demoServices\<lparr>route := flakyRouter\<rparr>"

definition strayGeocoder :: "jsString \<Rightarrow> error + NominatimSearchResponse list" where
  "strayGeocoder q = Inr [\<lparr> lat = utf16 ''91'', lon = utf16 ''200'' \<rparr>]"

section \<open>Facts about rounding\<close>

lemma bitlen_unique:
  assumes "2 ^ k \<le> n" and "n < 2 ^ Suc k"
  shows "bitlen n = int k + 1"
proof (rule antisym)
  show "bitlen n \<le> int k + 1"
    using assms(2) by (simp add: bitlen_le_iff_power nat_add_distrib)
  show "int k + 1 \<le> bitlen n"
    using assms(1) by (simp add: bitlen_ge_iff_power nat_add_distrib)
qed

lemma ilog2_ge_one:
  assumes "2 ^ k \<le> q" and "q < 2 ^ Suc k"
  shows "ilog2 q = int k"
proof -
  have one: "1 \<le> q"
    using assms(1) one_le_power [of "2 :: rat" k] by linarith
  have "(2 :: int) ^ k \<le> \<lfloor>q\<rfloor>"
    using assms(1) by (simp add: le_floor_iff)
  moreover have "\<lfloor>q\<rfloor> < 2 ^ Suc k"
    using assms(2) by (simp add: floor_less_iff)
  ultimately have "bitlen \<lfloor>q\<rfloor> = int k + 1"
    by (rule bitlen_unique)
  with one show ?thesis by (simp add: ilog2_def)
qed

lemma ilog2_less_one:
  assumes "1 / 2 ^ Suc k \<le> q" and "q < 1 / 2 ^ k"
  shows "ilog2 q = - int (Suc k)"
proof -
  have "0 < 1 / (2 :: rat) ^ Suc k" by simp
  with assms(1) have pos: "0 < q" by linarith
  have "1 / (2 :: rat) ^ k \<le> 1" by (simp add: divide_le_eq)
  with assms(2) have less: "q < 1" by linarith
  have "(2 :: rat) ^ k < 1 / q"
    using assms(2) pos by (simp add: field_simps)
  then have "(2 :: int) ^ k < \<lceil>1 / q\<rceil>"
    by (simp add: less_ceiling_iff)
  then have lo: "(2 :: int) ^ k \<le> \<lceil>1 / q\<rceil> - 1" by simp
  have "1 / q \<le> 2 ^ Suc k"
    using assms(1) pos by (simp add: field_simps)
  then have "\<lceil>1 / q\<rceil> \<le> 2 ^ Suc k"
    by (simp add: ceiling_le_iff)
  then have hi: "\<lceil>1 / q\<rceil> - 1 < 2 ^ Suc k" by simp
  from lo hi have "bitlen (\<lceil>1 / q\<rceil> - 1) = int k + 1"
    by (rule bitlen_unique)
  with less show ?thesis by (simp add: ilog2_def)
qed

text \<open>\<open>ilog2 q\<close> is the exponent of the leading bit of \<open>q\<close>.\<close>

lemma ilog2_unique:
  assumes "scale2 1 e \<le> q" and "q < scale2 1 (e + 1)"
  shows "ilog2 q = e"
proof (cases "0 \<le> e")
  case True
  then obtain k where e: "e = int k" using nonneg_int_cases by blast
  from assms have "2 ^ k \<le> q" "q < 2 ^ Suc k"
    by (simp_all add: scale2_def e nat_add_distrib)
  then show ?thesis by (simp add: ilog2_ge_one e)
next
  case False
  then obtain k where e: "e = - int (Suc k)"
    by (metis neg_int_cases not_le old.nat.exhaust of_nat_0 neg_0_equal_iff_equal less_irrefl)
  from assms have "1 / 2 ^ Suc k \<le> q" "q < 1 / 2 ^ k"
    by (auto simp add: scale2_def e nat_add_distrib split: if_splits)
  then show ?thesis by (simp add: ilog2_less_one e)
qed

text \<open>Away from a tie, \<open>roundHalfEven\<close> gives the nearest integer.\<close>

lemma roundHalfEven_nearest:
  assumes "\<bar>q - of_int m\<bar> < 1 / 2"
  shows "roundHalfEven q = m"
proof -
  have f1: "of_int \<lfloor>q\<rfloor> \<le> q" by (rule of_int_floor_le)
  have f2: "q < of_int \<lfloor>q\<rfloor> + 1" by linarith
  show ?thesis
  proof (cases "q - of_int \<lfloor>q\<rfloor> < 1 / 2")
    case True
    have "rat_of_int m < of_int \<lfloor>q\<rfloor> + 1" "rat_of_int \<lfloor>q\<rfloor> - 1 < of_int m"
      using assms True f1 f2 by linarith+
    then have "rat_of_int m < of_int (\<lfloor>q\<rfloor> + 1)" "rat_of_int (\<lfloor>q\<rfloor> - 1) < of_int m"
      by simp_all
    then have "m < \<lfloor>q\<rfloor> + 1" "\<lfloor>q\<rfloor> - 1 < m"
      by (simp_all only: of_int_less_iff)
    then have "m = \<lfloor>q\<rfloor>" by simp
    with True show ?thesis by (simp add: roundHalfEven_def Let_def)
  next
    case False
    have "rat_of_int m < of_int \<lfloor>q\<rfloor> + 2" "rat_of_int \<lfloor>q\<rfloor> < of_int m"
      using assms False f1 f2 by linarith+
    then have "rat_of_int m < of_int (\<lfloor>q\<rfloor> + 2)" "rat_of_int \<lfloor>q\<rfloor> < of_int m"
      by simp_all
    then have "m < \<lfloor>q\<rfloor> + 2" "\<lfloor>q\<rfloor> < m"
      by (simp_all only: of_int_less_iff)
    then have m: "m = \<lfloor>q\<rfloor> + 1" by simp
    from assms have "- (1 / 2) < q - of_int m" by linarith
    then have "1 / 2 < q - of_int \<lfloor>q\<rfloor>" by (simp add: m)
    with False m show ?thesis by (simp add: roundHalfEven_def Let_def)
  qed
qed

lemma roundHalfEven_ge_floor: "\<lfloor>q\<rfloor> \<le> roundHalfEven q"
  by (simp add: roundHalfEven_def Let_def)

lemma scale2_powi: "scale2 m e = m * 2 powi e"
  by (simp add: scale2_def power_int_def field_simps power_inverse)

text \<open>
  Rounding in the normal range: when \<open>q\<close> has its leading bit at \<open>e + 52\<close>, the double
  is \<open>q\<close> in units of \<open>2 ^ e\<close>, rounded to an integer, times \<open>2 ^ e\<close>.
\<close>

lemma roundDouble_normal:
  assumes lo: "2 ^ 52 \<le> scale2 q (- e)" and hi: "scale2 q (- e) < 2 ^ 53"
    and e: "- 1074 \<le> e"
    and r: "roundHalfEven (scale2 q (- e)) = m"
    and v: "scale2 (of_int m) e < 2 ^ 1024"
  shows "roundDouble q = Fin (scale2 (of_int m) e)"
proof -
  define u :: rat where "u = 2 powi e"
  have u: "0 < u" by (simp add: u_def)
  have unscale: "scale2 q (- e) * u = q"
    by (simp add: scale2_powi u_def power_int_minus)
  have "2 ^ 52 * u \<le> scale2 q (- e) * u" "scale2 q (- e) * u < 2 ^ 53 * u"
    using lo hi u by simp_all
  then have "2 ^ 52 * u \<le> q" "q < 2 ^ 53 * u"
    by (simp_all only: unscale)
  moreover have "scale2 1 (e + 52) = 2 ^ 52 * u" "scale2 1 (e + 52 + 1) = 2 ^ 53 * u"
    by (simp_all add: scale2_powi u_def power_int_add)
  ultimately have "scale2 1 (e + 52) \<le> q" "q < scale2 1 (e + 52 + 1)"
    by simp_all
  then have il: "ilog2 q = e + 52" by (rule ilog2_unique)
  have "0 < 2 ^ 52 * u" using u by simp
  with \<open>2 ^ 52 * u \<le> q\<close> have pos: "0 < q" by linarith
  from il e pos have ex: "max (ilog2 \<bar>q\<bar> - 52) (- 1074) = e"
    by simp
  have "(0 :: int) < 2 ^ 52" by simp
  also have "\<dots> \<le> \<lfloor>scale2 q (- e)\<rfloor>"
    using lo by (simp add: le_floor_iff)
  also have "\<dots> \<le> m"
    using roundHalfEven_ge_floor [of "scale2 q (- e)"] by (simp only: r)
  finally have "0 < m" .
  with pos ex r v show ?thesis
    by (simp add: roundDouble_def Let_def)
qed

lemma roundDouble_nearest:
  assumes "2 ^ 52 \<le> scale2 q (- e)" and "scale2 q (- e) < 2 ^ 53" and "- 1074 \<le> e"
    and "\<bar>scale2 q (- e) - of_int m\<bar> < 1 / 2"
    and "scale2 (of_int m) e < 2 ^ 1024"
  shows "roundDouble q = Fin (scale2 (of_int m) e)"
  using assms(1-3) roundHalfEven_nearest [OF assms(4)] assms(5) by (rule roundDouble_normal)

lemma floor_rat_numeral: "\<lfloor>(numeral a :: rat) / numeral b\<rfloor> = numeral a div numeral b"
  using floor_divide_of_int_eq [of "numeral a" "numeral b", where ?'a = rat] by simp

text \<open>
  The doubles of the example: the literal 0.1, the products for a route of three points
  (the first of them is a tie, which goes to the even significand), and the four
  numbers that \<^verbatim>\<open>parseFloat\<close> reads.
\<close>

lemma roundDouble_tenth: "roundDouble (1 / 10) = Fin (3602879701896397 / 36028797018963968)"
  using roundDouble_nearest [of "1 / 10" "- 56" 7205759403792794]
  by (simp add: scale2_def)

lemma three_tenths:
  "roundDouble (10808639105689191 / 36028797018963968) =
     Fin (1351079888211149 / 4503599627370496)"
proof -
  have "roundHalfEven (10808639105689191 / 2) = 5404319552844596"
    by (simp add: roundHalfEven_def Let_def floor_rat_numeral)
  then show ?thesis
    using roundDouble_normal [of "10808639105689191 / 36028797018963968" "- 54"
        5404319552844596]
    by (simp add: scale2_def)
qed

lemma three_points_time:
  "roundDouble (1351079888211149 / 2251799813685248) =
     Fin (1351079888211149 / 2251799813685248)"
  using roundDouble_nearest [of "1351079888211149 / 2251799813685248" "- 53" 5404319552844596]
  by (simp add: scale2_def)

lemma three_points_cost:
  "roundDouble (6755399441055745 / 2251799813685248) =
     Fin (6755399441055745 / 2251799813685248)"
  using roundDouble_nearest [of "6755399441055745 / 2251799813685248" "- 51" 6755399441055745]
  by (simp add: scale2_def)

lemma three_points_estimate:
  "num_times (num_times (Fin 3) (roundDouble (1 / 10))) (Fin 2) =
     Fin (1351079888211149 / 2251799813685248)"
  "num_times (num_times (Fin 3) (roundDouble (1 / 10))) (Fin 10) =
     Fin (6755399441055745 / 2251799813685248)"
  by (simp_all add: num_times_def roundDouble_tenth three_tenths three_points_time
      three_points_cost)

lemma roundDouble_examples:
  "roundDouble (286129 / 10000) = Fin (8053815361124329 / 281474976710656)"
  "roundDouble (154459 / 2000) = Fin (2717271464234451 / 35184372088832)"
  "roundDouble 91 = Fin 91"
  "roundDouble 200 = Fin 200"
  using roundDouble_nearest [of "286129 / 10000" "- 48" 8053815361124329]
    roundDouble_nearest [of "154459 / 2000" "- 46" 5434542928468902]
    roundDouble_nearest [of 91 "- 46" 6403555720167424]
    roundDouble_nearest [of 200 "- 45" 7036874417766400]
  by (simp_all add: scale2_def)

lemma parseFloat_examples:
  "parseFloat (utf16 ''28.6129'') = Fin (8053815361124329 / 281474976710656)"
  "parseFloat (utf16 ''77.2295'') = Fin (2717271464234451 / 35184372088832)"
  "parseFloat (utf16 ''91'') = Fin 91"
  "parseFloat (utf16 ''200'') = Fin 200"
  by (simp_all add: parseFloat_def utf16_def isWhiteSpace_def isDigit_def fractionPart_def
      digitsValue_def exponentPart_def scale10_def literalNumber_def roundDouble_examples)

section \<open>Facts about the fetch\<close>

lemma promiseAll_three:
  "promiseAll [a, b, c] = Inr rs \<longleftrightarrow>
     (\<exists>x y z. a = Inr x \<and> b = Inr y \<and> c = Inr z \<and> rs = [x, y, z])"
  by (auto split: sum.splits)

lemma promiseAll_three_fails:
  "isl (promiseAll [a, b, c]) \<longleftrightarrow> isl a \<or> isl b \<or> isl c"
  by (auto split: sum.splits)

lemma getCoordinates_fails:
  "isl (fst (getCoordinates search address)) \<longleftrightarrow>
     isl (search address) \<or> search address = Inr []"
  by (auto simp: getCoordinates_def split: sum.splits list.splits)

lemma resolveStart_fails:
  "isl (fst (resolveStart net s)) \<longleftrightarrow>
     userAddress s \<noteq> [] \<and>
     (isl (searchStart net (userAddress s)) \<or> searchStart net (userAddress s) = Inr [])"
  by (simp add: resolveStart_def getCoordinates_fails)

lemma routeRequest_endCoords:
  "routeRequest net start end i = Inr r \<Longrightarrow> endCoords r = end"
  by (auto simp: routeRequest_def split: sum.splits list.splits)

lemma fetchRoutes_resolved:
  assumes "fst (resolveStart net s) = Inr start"
    and "fst (getCoordinates (searchEnd net) (destination s)) = Inr end"
  shows "fst (fetchRoutes net s) = promiseAll (map (routeRequest net start end) [0, 1, 2])"
  using assms by (auto simp: fetchRoutes_def truthyTuple_def split: prod.splits sum.splits)

lemma fetchRoutes_start_fails:
  assumes "fst (resolveStart net s) = Inl e"
  shows "fst (fetchRoutes net s) = Inl e"
  using assms by (auto simp: fetchRoutes_def split: prod.splits sum.splits)

lemma fetchRoutes_end_fails:
  assumes "fst (resolveStart net s) = Inr start"
    and "fst (getCoordinates (searchEnd net) (destination s)) = Inl e"
  shows "fst (fetchRoutes net s) = Inl e"
  using assms by (auto simp: fetchRoutes_def split: prod.splits sum.splits)

text \<open>A fetch that succeeds has resolved both ends and got an answer to each request.\<close>

lemma fetchRoutes_success:
  assumes "fst (fetchRoutes net s) = Inr rs"
  shows "\<exists>start end r0 r1 r2.
           fst (resolveStart net s) = Inr start \<and>
           fst (getCoordinates (searchEnd net) (destination s)) = Inr end \<and>
           routeRequest net start end 0 = Inr r0 \<and>
           routeRequest net start end 1 = Inr r1 \<and>
           routeRequest net start end 2 = Inr r2 \<and>
           rs = [r0, r1, r2]"
proof (cases "fst (resolveStart net s)")
  case (Inl e)
  with assms show ?thesis by (simp add: fetchRoutes_start_fails)
next
  case start: (Inr start)
  show ?thesis
  proof (cases "fst (getCoordinates (searchEnd net) (destination s))")
    case (Inl e)
    with assms start show ?thesis by (simp add: fetchRoutes_end_fails)
  next
    case dest: (Inr dest)
    with assms start have "promiseAll (map (routeRequest net start dest) [0, 1, 2]) = Inr rs"
      by (simp add: fetchRoutes_resolved)
    then have "\<exists>r0 r1 r2. routeRequest net start dest 0 = Inr r0 \<and>
        routeRequest net start dest 1 = Inr r1 \<and> routeRequest net start dest 2 = Inr r2 \<and>
        rs = [r0, r1, r2]"
      by (simp only: list.map promiseAll_three)
    with start dest show ?thesis by blast
  qed
qed

text \<open>A fetch fails exactly when one of its five requests does.\<close>

lemma fetchRoutes_fails_iff:
  "isl (fst (fetchRoutes net s)) \<longleftrightarrow>
     isl (fst (resolveStart net s)) \<or>
     isl (fst (getCoordinates (searchEnd net) (destination s))) \<or>
     (\<exists>start dest. fst (resolveStart net s) = Inr start \<and>
        fst (getCoordinates (searchEnd net) (destination s)) = Inr dest \<and>
        (\<exists>i \<in> {0, 1, 2}. isl (routeRequest net start dest i)))"
proof (cases "fst (resolveStart net s)")
  case (Inl e)
  then show ?thesis by (simp add: fetchRoutes_start_fails)
next
  case start: (Inr start)
  show ?thesis
  proof (cases "fst (getCoordinates (searchEnd net) (destination s))")
    case (Inl e)
    with start show ?thesis by (simp add: fetchRoutes_end_fails)
  next
    case dest: (Inr dest)
    have "isl (fst (fetchRoutes net s)) \<longleftrightarrow>
        isl (promiseAll [routeRequest net start dest 0, routeRequest net start dest 1,
          routeRequest net start dest 2])"
      using fetchRoutes_resolved [OF start dest] by (simp only: list.map)
    also have "\<dots> \<longleftrightarrow> (\<exists>i \<in> {0, 1, 2}. isl (routeRequest net start dest i))"
      by (simp only: promiseAll_three_fails) blast
    finally show ?thesis using start dest by simp
  qed
qed

lemma fetched_length: "fst (fetchRoutes net c) = Inr rs \<Longrightarrow> length rs = 3"
  using fetchRoutes_success [of net c rs] by auto

lemma getRoutes_success:
  assumes "fst (fetchRoutes net s) = Inr rs"
  shows "fst (getRoutes net s) = s\<lparr>routes := rs, selectedRoute := None\<rparr>"
  using assms by (auto simp: getRoutes_def split: prod.splits sum.splits)

lemma getRoutes_failure:
  assumes "fst (fetchRoutes net s) = Inl e"
  shows "getRoutes net s =
           (s, snd (fetchRoutes net s) @ [ConsoleError ''Failed to fetch routes:'' e])"
  using assms by (auto simp: getRoutes_def split: prod.splits sum.splits)

section \<open>Facts about the rendering and the reachable states\<close>

lemma clickable_in_bounds:
  "i \<in> set (clickablePolylines s) \<Longrightarrow>
     selectedRoute s = None \<and> 0 \<le> i \<and> i < int (length (routes s))"
  by (auto simp: clickablePolylines_def split: if_splits)

text \<open>
  The Choose button is rendered only while no route is selected, and it is disabled
  while no route is selected: whenever it is there, it cannot be clicked.
\<close>

lemma choose_never_enabled: "chooseButtonRendered s \<Longrightarrow> chooseButtonDisabled s"
  by (simp add: chooseButtonRendered_def chooseButtonDisabled_def)

lemma reachable_invariant:
  assumes "reachable s"
  shows "(length (routes s) = 0 \<or> length (routes s) = 3) \<and>
         (\<forall>i. selectedRoute s = Some i \<longrightarrow> 0 \<le> i \<and> i < int (length (routes s)))"
  using assms
proof (induction rule: reachable.induct)
  case mounted
  show ?case by (simp add: initialState_def)
next
  case (routeClicked s i)
  from routeClicked.hyps(2) have "0 \<le> i \<and> i < int (length (routes s))"
    by (simp add: clickable_in_bounds)
  with routeClicked.IH show ?case by (simp add: handleRouteClick_def)
next
  case (chooseClicked s s')
  then show ?case using choose_never_enabled by blast
next
  case (routesSet c s net fetchedRoutes)
  have "length fetchedRoutes = 3" using routesSet.hyps(3) by (rule fetched_length)
  with routesSet.IH(2) show ?case by auto
next
  case (routesSetAndReset c s net fetchedRoutes)
  have "length fetchedRoutes = 3" using routesSetAndReset.hyps(3) by (rule fetched_length)
  then show ?case by simp
qed simp_all



section \<open>The example session, evaluated\<close>

lemma demo_end:
  "getCoordinates (searchEnd demoServices) (destination demoState) =
     (Inr indiaGateCoords, [ConsoleLog ''Coordinates fetched for address:''])"
  by (simp add: getCoordinates_def demoServices_def indiaGate_def indiaGateCoords_def
      parseFloat_examples)

lemma demo_start: "resolveStart demoServices demoState = (Inr (userCoords initialState), [])"
  by (simp add: resolveStart_def demoState_def initialState_def)

lemma demo_requests:
  "routeRequest demoServices start dest 0 =
     Inr \<lparr> coords = [(Fin 21, Fin 78), (Fin 24, Fin 78)], endCoords = dest \<rparr>"
  "routeRequest demoServices start dest (Suc 0) =
     Inr \<lparr> coords = [(Fin 21, Fin 78), (Fin 24, Fin 78), (Fin 27, Fin 77)], endCoords = dest \<rparr>"
  "routeRequest demoServices start dest 2 =
     Inr \<lparr> coords = [(Fin 21, Fin 78), (Fin 24, Fin 78), (Fin 27, Fin 77), (Fin 28, Fin 77)],
           endCoords = dest \<rparr>"
  by (simp_all add: routeRequest_def demoServices_def demoRouter_def demoPoints_def)

lemma demo_fetch: "fst (fetchRoutes demoServices demoState) = Inr demoRoutes"
  by (simp add: fetchRoutes_resolved [where start = "userCoords initialState"
        and ?end = indiaGateCoords]
      demo_start demo_end demo_requests demoRoutes_def)

lemma demoFetched_eq: "demoFetched = demoState\<lparr>routes := demoRoutes, selectedRoute := None\<rparr>"
  by (simp add: demoFetched_def getRoutes_success [OF demo_fetch])

lemma demoSelected_eq:
  "demoSelected = demoState\<lparr>routes := demoRoutes, selectedRoute := Some 1\<rparr>"
  by (simp add: demoSelected_def handleRouteClick_def demoFetched_eq)

lemma flaky_requests:
  "routeRequest flakyServices start dest 2 = Inl (NetworkError ''Network Error'')"
  "routeRequest flakyServices start dest 0 = routeRequest demoServices start dest 0"
  "routeRequest flakyServices start dest (Suc 0) = routeRequest demoServices start dest (Suc 0)"
  by (simp_all add: routeRequest_def flakyServices_def flakyRouter_def demoServices_def)

lemma demoSelected_end:
  "getCoordinates (searchEnd flakyServices) (destination demoSelected) =
     (Inr indiaGateCoords, [ConsoleLog ''Coordinates fetched for address:''])"
  by (simp add: getCoordinates_def flakyServices_def demoServices_def indiaGate_def
      indiaGateCoords_def parseFloat_examples)

lemma demoSelected_start:
  "resolveStart flakyServices demoSelected = (Inr (userCoords initialState), [])"
  by (simp add: resolveStart_def demoSelected_eq demoState_def initialState_def)

lemma reachable_demoState: "reachable demoState"
  unfolding demoState_def by (rule reachable.destinationChanged) (rule reachable.mounted)

lemma reachable_demoFetched: "reachable demoFetched"
  unfolding demoFetched_eq
  by (rule reachable.routesSetAndReset [OF reachable_demoState reachable_demoState demo_fetch])

lemma reachable_demoSelected: "reachable demoSelected"
  unfolding demoSelected_def
  by (rule reachable.routeClicked [OF reachable_demoFetched])
     (simp add: clickablePolylines_def demoFetched_eq demoRoutes_def)

section \<open>The estimate\<close>

text \<open>
  C1. When a route is selected and the selection is an index of the route list,
  \<^verbatim>\<open>handleChooseRoute\<close> sets the estimated time to \<open>P * 0.1 * 2\<close> and the estimated
  cost to \<open>P * 0.1 * 10\<close>, where \<open>P\<close> is the number of points of the selected route
  and the products are those of the engine, on doubles, from left to right: the
  estimate comes from the point count alone. For three points the time is
  0.6000000000000001 and the cost 3.0000000000000004.
\<close>

theorem handleChooseRoute_estimate:
  assumes "selectedRoute s = Some i" and "0 \<le> i" and "i < int (length (routes s))"
  shows "fst (handleChooseRoute s) =
           Inr (s\<lparr>estimatedTime :=
                    Some (num_times
                      (num_times (Fin (of_nat (length (coords (routes s ! nat i)))))
                         (roundDouble (1 / 10)))
                      (Fin 2)),
                  estimatedCost :=
                    Some (num_times
                      (num_times (Fin (of_nat (length (coords (routes s ! nat i)))))
                         (roundDouble (1 / 10)))
                      (Fin 10))\<rparr>)"
  using assms by (simp add: handleChooseRoute_def at_index_def Let_def)

theorem handleChooseRoute_estimate_witness:
  "selectedRoute demoSelected = Some 1 \<and> (1 :: int) < int (length (routes demoSelected)) \<and>
   length (coords (routes demoSelected ! 1)) = 3 \<and>
   fst (handleChooseRoute demoSelected) =
     Inr (demoSelected\<lparr>estimatedTime := Some (Fin (1351079888211149 / 2251799813685248)),
            estimatedCost := Some (Fin (6755399441055745 / 2251799813685248))\<rparr>)"
  using handleChooseRoute_estimate [of demoSelected 1]
  by (simp add: demoSelected_eq demoRoutes_def three_points_estimate)

text \<open>
  C9. With no route selected, \<^verbatim>\<open>handleChooseRoute\<close> returns at once: the state,
  and with it the estimated time and cost, is what it was, and nothing is printed.
\<close>

theorem handleChooseRoute_unselected:
  assumes "selectedRoute s = None"
  shows "handleChooseRoute s = (Inr s, [])"
  using assms by (simp add: handleChooseRoute_def)

theorem handleChooseRoute_unselected_witness:
  "selectedRoute demoFetched = None \<and> routes demoFetched = demoRoutes \<and>
   handleChooseRoute demoFetched = (Inr demoFetched, [])"
  using handleChooseRoute_unselected [of demoFetched] by (simp add: demoFetched_eq)

section \<open>The route list\<close>

text \<open>
  C2. Once both ends are resolved, \<^verbatim>\<open>getRoutes\<close> either installs a list of exactly
  three routes, the answers to the requests 0, 1 and 2 in this order, or one of the
  three requests has failed and the state, the route list in it, is left as it was.
\<close>

theorem getRoutes_three_or_nothing:
  assumes "fst (resolveStart net s) = Inr start"
    and "fst (getCoordinates (searchEnd net) (destination s)) = Inr end"
  shows "(\<exists>r0 r1 r2.
            routeRequest net start end 0 = Inr r0 \<and>
            routeRequest net start end 1 = Inr r1 \<and>
            routeRequest net start end 2 = Inr r2 \<and>
            routes (fst (getRoutes net s)) = [r0, r1, r2])
         \<or> ((\<exists>i \<in> {0, 1, 2}. isl (routeRequest net start end i)) \<and> fst (getRoutes net s) = s)"
proof (cases "fst (fetchRoutes net s)")
  case (Inl e)
  then have "isl (promiseAll (map (routeRequest net start end) [0, 1, 2]))"
    using fetchRoutes_resolved [OF assms] by simp
  then have "\<exists>i \<in> {0, 1, 2}. isl (routeRequest net start end i)"
    by (simp only: list.map promiseAll_three_fails) blast
  moreover have "fst (getRoutes net s) = s"
    using Inl by (simp add: getRoutes_failure)
  ultimately show ?thesis by blast
next
  case (Inr rs)
  then have "promiseAll (map (routeRequest net start end) [0, 1, 2]) = Inr rs"
    using fetchRoutes_resolved [OF assms] by simp
  then have "\<exists>r0 r1 r2. routeRequest net start end 0 = Inr r0 \<and>
      routeRequest net start end 1 = Inr r1 \<and> routeRequest net start end 2 = Inr r2 \<and>
      rs = [r0, r1, r2]"
    by (simp only: list.map promiseAll_three)
  moreover have "routes (fst (getRoutes net s)) = rs"
    using Inr by (simp add: getRoutes_success)
  ultimately show ?thesis by blast
qed

theorem getRoutes_three_or_nothing_witness:
  "fst (resolveStart demoServices demoState) = Inr (userCoords initialState) \<and>
   fst (getCoordinates (searchEnd demoServices) (destination demoState)) =
     Inr indiaGateCoords \<and>
   routes (fst (getRoutes demoServices demoState)) = demoRoutes \<and> length demoRoutes = 3 \<and>
   fst (resolveStart flakyServices demoSelected) = Inr (userCoords initialState) \<and>
   fst (getCoordinates (searchEnd flakyServices) (destination demoSelected)) =
     Inr indiaGateCoords \<and>
   isl (routeRequest flakyServices (userCoords initialState) indiaGateCoords 2) \<and>
   fst (getRoutes flakyServices demoSelected) = demoSelected"
  using getRoutes_three_or_nothing [of demoServices demoState "userCoords initialState"
      indiaGateCoords]
    getRoutes_three_or_nothing [of flakyServices demoSelected "userCoords initialState"
      indiaGateCoords]
  by (simp add: demo_start demo_end demoSelected_start demoSelected_end demo_requests
      flaky_requests demoRoutes_def)

text \<open>
  C8. When the router answers a request, the route built from the answer has the points
  of the first geometry, as many and in the same order, each pair of longitude and
  latitude turned into latitude and longitude.
\<close>

theorem routeRequest_swaps:
  assumes "route net start end i = Inr res" and "osrm_routes res = r # rest"
  shows "\<exists>rt. routeRequest net start end i = Inr rt \<and>
           length (coords rt) = length (coordinates (geometry r)) \<and>
           (\<forall>k < length (coordinates (geometry r)).
              coords rt ! k =
                (snd (coordinates (geometry r) ! k), fst (coordinates (geometry r) ! k)))"
  using assms by (simp add: routeRequest_def case_prod_unfold)

theorem routeRequest_swaps_witness:
  "route demoServices (Fin 20, Fin 78) (Fin 28, Fin 77) 0 =
     Inr \<lparr> osrm_routes =
             [\<lparr> geometry = \<lparr> coordinates = [(Fin 78, Fin 21), (Fin 78, Fin 24)] \<rparr> \<rparr>] \<rparr> \<and>
   routeRequest demoServices (Fin 20, Fin 78) (Fin 28, Fin 77) 0 =
     Inr \<lparr> coords = [(Fin 21, Fin 78), (Fin 24, Fin 78)], endCoords = (Fin 28, Fin 77) \<rparr>"
  using routeRequest_swaps [of demoServices "(Fin 20, Fin 78)" "(Fin 28, Fin 77)" 0
      "\<lparr> osrm_routes =
           [\<lparr> geometry = \<lparr> coordinates = [(Fin 78, Fin 21), (Fin 78, Fin 24)] \<rparr> \<rparr>] \<rparr>"
      "\<lparr> geometry = \<lparr> coordinates = [(Fin 78, Fin 21), (Fin 78, Fin 24)] \<rparr> \<rparr>" "[]"]
  by (simp add: demo_requests) (simp add: demoServices_def demoRouter_def demoPoints_def)

text \<open>
  C10. After a fetch that succeeds, the three routes carry the same \<^verbatim>\<open>endCoords\<close>,
  the coordinate that resolving the destination of this fetch gave, and the end marker,
  drawn from \<^verbatim>\<open>routes[0].endCoords\<close>, is at that coordinate.
\<close>

theorem fetched_routes_share_destination:
  assumes "fst (fetchRoutes net s) = Inr fetchedRoutes"
  shows "\<exists>end. fst (getCoordinates (searchEnd net) (destination s)) = Inr end \<and>
           length fetchedRoutes = 3 \<and>
           (\<forall>r \<in> set fetchedRoutes. endCoords r = end) \<and>
           routes (fst (getRoutes net s)) = fetchedRoutes \<and>
           endMarker (fst (getRoutes net s)) = Some end"
proof -
  from fetchRoutes_success [OF assms] obtain start dest r0 r1 r2 where
    dest: "fst (getCoordinates (searchEnd net) (destination s)) = Inr dest" and
    reqs: "routeRequest net start dest 0 = Inr r0" "routeRequest net start dest 1 = Inr r1"
      "routeRequest net start dest 2 = Inr r2" and
    rs: "fetchedRoutes = [r0, r1, r2]"
    by blast
  from reqs have "endCoords r0 = dest" "endCoords r1 = dest" "endCoords r2 = dest"
    by (simp_all add: routeRequest_endCoords)
  with dest rs show ?thesis
    by (simp add: getRoutes_success [OF assms] endMarker_def)
qed

theorem fetched_routes_share_destination_witness:
  "fst (fetchRoutes demoServices demoState) = Inr demoRoutes \<and>
   fst (getCoordinates (searchEnd demoServices) (destination demoState)) =
     Inr indiaGateCoords \<and>
   map endCoords demoRoutes = replicate 3 indiaGateCoords \<and>
   endMarker (fst (getRoutes demoServices demoState)) = Some indiaGateCoords"
proof -
  have "map endCoords demoRoutes = replicate 3 indiaGateCoords"
    by (simp add: demoRoutes_def numeral_3_eq_3)
  with fetched_routes_share_destination [OF demo_fetch] demo_fetch show ?thesis
    by (simp add: demo_end)
qed

section \<open>The selection\<close>

text \<open>
  C3. A fetch that succeeds installs the fetched list and resets the selection to
  null; and in every state the component reaches, a selection that is set is an index
  of the current route list.
\<close>

theorem selection_reset_and_valid:
  "(fst (fetchRoutes net s) = Inr fetchedRoutes \<longrightarrow>
      routes (fst (getRoutes net s)) = fetchedRoutes \<and>
      selectedRoute (fst (getRoutes net s)) = None)
   \<and> (reachable t \<longrightarrow>
        (\<forall>i. selectedRoute t = Some i \<longrightarrow> 0 \<le> i \<and> i < int (length (routes t))))"
  using reachable_invariant [of t] by (auto simp: getRoutes_success)

theorem selection_reset_and_valid_witness:
  "fst (fetchRoutes demoServices demoState) = Inr demoRoutes \<and>
   routes (fst (getRoutes demoServices demoState)) = demoRoutes \<and>
   selectedRoute (fst (getRoutes demoServices demoState)) = None \<and>
   reachable demoSelected \<and> selectedRoute demoSelected = Some 1 \<and>
   (1 :: int) < int (length (routes demoSelected))"
  using selection_reset_and_valid [of demoServices demoState demoRoutes demoSelected]
    demo_fetch reachable_demoSelected
  by (simp add: demoSelected_eq)






section \<open>Failures\<close>

text \<open>
  C6. When a geocoding request of the fetch is rejected or finds no match, or one of
  the three routing requests fails, \<^verbatim>\<open>getRoutes\<close> returns with the state as it
  was (route list, selection and estimate included), and the last thing it prints is
  the error, under the label of its \<^verbatim>\<open>catch\<close>. The function has no other way
  out: its result is a state and the console output, never an error.
\<close>

theorem getRoutes_failure_atomic:
  assumes "(userAddress s \<noteq> [] \<and>
              (isl (searchStart net (userAddress s)) \<or> searchStart net (userAddress s) = Inr []))
    \<or> isl (searchEnd net (destination s)) \<or> searchEnd net (destination s) = Inr []
    \<or> (\<exists>start end. fst (resolveStart net s) = Inr start \<and>
          fst (getCoordinates (searchEnd net) (destination s)) = Inr end \<and>
          (\<exists>i \<in> {0, 1, 2}. isl (routeRequest net start end i)))"
  shows "fst (getRoutes net s) = s \<and>
         (\<exists>e. last (snd (getRoutes net s)) = ConsoleError ''Failed to fetch routes:'' e)"
proof -
  from assms have "isl (fst (fetchRoutes net s))"
    unfolding fetchRoutes_fails_iff resolveStart_fails getCoordinates_fails by blast
  then obtain e where "fst (fetchRoutes net s) = Inl e"
    by (cases "fst (fetchRoutes net s)") simp_all
  then have "getRoutes net s =
      (s, snd (fetchRoutes net s) @ [ConsoleError ''Failed to fetch routes:'' e])"
    by (rule getRoutes_failure)
  then show ?thesis by simp
qed

theorem getRoutes_failure_atomic_witness:
  "fst (resolveStart flakyServices demoSelected) = Inr (userCoords initialState) \<and>
   fst (getCoordinates (searchEnd flakyServices) (destination demoSelected)) =
     Inr indiaGateCoords \<and>
   isl (routeRequest flakyServices (userCoords initialState) indiaGateCoords 2) \<and>
   fst (getRoutes flakyServices demoSelected) = demoSelected \<and>
   routes demoSelected = demoRoutes \<and> selectedRoute demoSelected = Some 1 \<and>
   (\<exists>e. last (snd (getRoutes flakyServices demoSelected)) =
          ConsoleError ''Failed to fetch routes:'' e)"
proof -
  have start: "fst (resolveStart flakyServices demoSelected) = Inr (userCoords initialState)"
    by (simp add: demoSelected_start)
  have dest: "fst (getCoordinates (searchEnd flakyServices) (destination demoSelected)) =
      Inr indiaGateCoords"
    by (simp add: demoSelected_end)
  have third: "isl (routeRequest flakyServices (userCoords initialState) indiaGateCoords 2)"
    by (simp add: flaky_requests)
  from start dest third
  have "\<exists>start end. fst (resolveStart flakyServices demoSelected) = Inr start \<and>
          fst (getCoordinates (searchEnd flakyServices) (destination demoSelected)) = Inr end \<and>
          (\<exists>i \<in> {0, 1, 2}. isl (routeRequest flakyServices start end i))"
    by blast
  then have "fst (getRoutes flakyServices demoSelected) = demoSelected \<and>
      (\<exists>e. last (snd (getRoutes flakyServices demoSelected)) =
             ConsoleError ''Failed to fetch routes:'' e)"
    using getRoutes_failure_atomic [of demoSelected flakyServices] by blast
  with start dest third show ?thesis by (simp add: demoSelected_eq)
qed

section \<open>The range of a resolved coordinate\<close>

text \<open>
  C7, as stated, fails: \<^verbatim>\<open>getCoordinates\<close> checks no range. A first candidate with
  latitude 91 and longitude 200 is returned as it is.
\<close>

theorem getCoordinates_range_counterexample:
  "fst (getCoordinates strayGeocoder (utf16 ''Nowhere'')) = Inr (Fin 91, Fin 200) \<and>
   \<not> latitudeInRange (Fin 91) \<and> \<not> longitudeInRange (Fin 200)"
  by (simp add: getCoordinates_def strayGeocoder_def parseFloat_examples)

text \<open>
  C7, amended. When the geocoder answers with at least one candidate,
  \<^verbatim>\<open>getCoordinates\<close> returns what \<^verbatim>\<open>parseFloat\<close> reads from the latitude and the
  longitude of the first candidate, whatever the two numbers are: there is no range
  check. So the latitude returned is in [-90, 90] and the longitude in [-180, 180]
  exactly when the two numbers read from that candidate are.
\<close>

theorem getCoordinates_of_candidate:
  assumes "search address = Inr (d # rest)"
  shows "fst (getCoordinates search address) = Inr (parseFloat (lat d), parseFloat (lon d)) \<and>
         ((\<exists>c. fst (getCoordinates search address) = Inr c \<and>
               latitudeInRange (fst c) \<and> longitudeInRange (snd c)) \<longleftrightarrow>
          latitudeInRange (parseFloat (lat d)) \<and> longitudeInRange (parseFloat (lon d)))"
  using assms by (simp add: getCoordinates_def)

theorem getCoordinates_of_candidate_witness:
  "searchEnd demoServices (utf16 ''India Gate, Delhi'') = Inr (indiaGate # []) \<and>
   fst (getCoordinates (searchEnd demoServices) (utf16 ''India Gate, Delhi'')) =
     Inr indiaGateCoords \<and>
   latitudeInRange (fst indiaGateCoords) \<and> longitudeInRange (snd indiaGateCoords) \<and>
   strayGeocoder (utf16 ''Nowhere'') = Inr (\<lparr> lat = utf16 ''91'', lon = utf16 ''200'' \<rparr> # []) \<and>
   fst (getCoordinates strayGeocoder (utf16 ''Nowhere'')) = Inr (Fin 91, Fin 200)"
  using getCoordinates_of_candidate
      [of "searchEnd demoServices" "utf16 ''India Gate, Delhi''" indiaGate "[]"]
    getCoordinates_of_candidate
      [of strayGeocoder "utf16 ''Nowhere''" "\<lparr> lat = utf16 ''91'', lon = utf16 ''200'' \<rparr>" "[]"]
  by (simp add: demoServices_def strayGeocoder_def indiaGate_def indiaGateCoords_def
      parseFloat_examples)

end
